theory Spec2Isabelle
  imports Complex_Main
begin

section \<open>The game-state model\<close>

text \<open>
  The reducer of the trivia session (\<^verbatim>\<open>gameReducer\<close>) and the loader
  (\<^verbatim>\<open>mapRecordToState\<close> in \<^verbatim>\<open>context/GameContext.tsx\<close>) are embedded here.
  A JavaScript \<^verbatim>\<open>number\<close> is a \<^typ>\<open>real\<close>, so that a fraction such as
  one half is a value of the model (the code only adds, takes 1 away and compares, which
  a double does exactly on the values of a session; \<^verbatim>\<open>NaN\<close> and the infinities
  are not modelled). A string-literal union is a \<^typ>\<open>string\<close> or a datatype, an
  object used as a dictionary is a map, and a property that may be \<^verbatim>\<open>null\<close>,
  \<^verbatim>\<open>undefined\<close> or missing is an \<^typ>\<open>'a option\<close>.
  A \<^verbatim>\<open>TypeError\<close> thrown inside the reducer is the value \<open>Inl TypeError\<close>.
\<close>

type_synonym number = real

text \<open>
  Modelled from the spec: the declarations of \<^verbatim>\<open>@/types/game\<close> (GamePhase,
  SegmentCode, PlayerId, Player, ScoreEvent, GameState) are not among the sources; the
  types below follow the data model of the specification and the way the sources use
  the fields.
\<close>

type_synonym GamePhase = string

type_synonym SegmentCode = string

datatype PlayerId = host | playerA | playerB

record Player =
  player_id :: PlayerId
  name :: string
  score :: number
  strikes :: number
  specialButtons :: "string \<rightharpoonup> bool"
  flag :: "string option"
  club :: "string option"
  isConnected :: bool

record ScoreEvent =
  playerId :: PlayerId
  points :: number
  timestamp :: number
  reason :: "string option"

record GameState =
  gameId :: string
  hostCode :: string
  hostName :: "string option"
  phase :: GamePhase
  currentSegment :: "SegmentCode option"
  currentQuestionIndex :: number
  timer :: number
  isTimerRunning :: bool
  players :: "PlayerId \<rightharpoonup> Player"
  scoreHistory :: "ScoreEvent list"
  segmentSettings :: "SegmentCode \<rightharpoonup> number"
  videoRoomUrl :: "string option"
  videoRoomCreated :: bool

text \<open>\<^verbatim>\<open>Partial<Player>\<close>, the argument of \<^verbatim>\<open>UPDATE_PLAYER\<close>: every
  property may be missing.\<close>

record PartialPlayer =
  player_id_pp :: "PlayerId option"
  name_pp :: "string option"
  score_pp :: "number option"
  strikes_pp :: "number option"
  specialButtons_pp :: "(string \<rightharpoonup> bool) option"
  flag_pp :: "string option option"
  club_pp :: "string option option"
  isConnected_pp :: "bool option"

datatype error = TypeError

section \<open>Actions\<close>

text \<open>
  \<^verbatim>\<open>GameAction\<close> of the reducer's module: the members it declares itself, and the
  members of the imported \<^verbatim>\<open>SpecAction\<close> that the \<^verbatim>\<open>switch\<close> has a case for.
  Any other member of \<^verbatim>\<open>SpecAction\<close> (the provider dispatches
  \<^verbatim>\<open>START_GAME\<close>, \<^verbatim>\<open>JOIN_GAME\<close>, \<^verbatim>\<open>UPDATE_HOST_NAME\<close>,
  \<^verbatim>\<open>UPDATE_SEGMENT_SETTINGS\<close>, \<^verbatim>\<open>ADVANCE_QUESTION\<close>) is \<open>OTHER_ACTION\<close>
  with its type tag.
\<close>

datatype GameAction =
    INIT GameState
  | SET_PHASE GamePhase
  | SET_CURRENT_SEGMENT "SegmentCode option"
  | NEXT_QUESTION
  | NEXT_SEGMENT
  | ADD_PLAYER Player
  | UPDATE_PLAYER PlayerId PartialPlayer
  | UPDATE_SCORE PlayerId number
  | ADD_STRIKE PlayerId
  | USE_SPECIAL_BUTTON PlayerId string
  | START_TIMER number
  | STOP_TIMER
  | TICK_TIMER
  | RESET_GAME
  | UPDATE_TIMER number bool
  | PUSH_SCORE_EVENT ScoreEvent
  | RESET_STRIKES
  | COMPLETE_GAME
  | OTHER_ACTION string

section \<open>The reducer\<close>

text \<open>\<^verbatim>\<open>x || 0\<close> on a number: a falsy \<open>x\<close> (zero) gives \<open>0\<close>, anything else \<open>x\<close>.\<close>

definition or_zero :: "number \<Rightarrow> number" where
  "or_zero x = (if x = 0 then 0 else x)"

text \<open>A spread or \<^verbatim>\<open>Object.assign\<close> of one property: a property present in the
  source object overwrites the target's, a missing one leaves it.\<close>

fun overlay :: "'a \<Rightarrow> 'a option \<Rightarrow> 'a" where
  "overlay cur None = cur"
| "overlay cur (Some v) = v"

text \<open>\<^verbatim>\<open>Object.assign(player, partial)\<close>, for a partial whose properties are
  either missing or hold a value; a property that is present with the value
  \<^verbatim>\<open>undefined\<close> is not a value of \<open>PartialPlayer\<close>.\<close>

definition assign_player :: "Player \<Rightarrow> PartialPlayer \<Rightarrow> Player" where
  "assign_player p pp =
     p\<lparr> player_id := overlay (player_id p) (player_id_pp pp),
        name := overlay (name p) (name_pp pp),
        score := overlay (score p) (score_pp pp),
        strikes := overlay (strikes p) (strikes_pp pp),
        specialButtons := overlay (specialButtons p) (specialButtons_pp pp),
        flag := overlay (flag p) (flag_pp pp),
        club := overlay (club p) (club_pp pp),
        isConnected := overlay (isConnected p) (isConnected_pp pp) \<rparr>"

text \<open>\<^verbatim>\<open>Object.values(draft.players).forEach((p) => { p.strikes = 0; })\<close>.\<close>

definition zero_strikes :: "(PlayerId \<rightharpoonup> Player) \<Rightarrow> (PlayerId \<rightharpoonup> Player)" where
  "zero_strikes ps = (\<lambda>k. map_option (\<lambda>p. p\<lparr>strikes := 0\<rparr>) (ps k))"

text \<open>
  \<^verbatim>\<open>gameReducer(state, action)\<close>. The recipe given to \<^verbatim>\<open>produce\<close> either returns
  a value, which becomes the next state (\<^verbatim>\<open>INIT\<close>, \<^verbatim>\<open>RESET_GAME\<close>), or edits the
  draft, whose edited copy becomes the next state. An action type with no case leaves
  the draft as it is. Reading a property of \<^verbatim>\<open>draft.players[id]\<close> when the slot is
  missing throws a \<^verbatim>\<open>TypeError\<close>. The first argument is the constant
  \<^verbatim>\<open>initialGameState\<close>, whose module is not among the sources.
\<close>

fun gameReducer :: "GameState \<Rightarrow> GameState \<Rightarrow> GameAction \<Rightarrow> error + GameState" where
  "gameReducer initialGameState state (INIT payload) = Inr payload"
| "gameReducer initialGameState state (SET_PHASE ph) =
     Inr (if ph = ''CONFIG''
          then state\<lparr>phase := ph, currentSegment := None\<rparr>
          else state\<lparr>phase := ph\<rparr>)"
| "gameReducer initialGameState state (SET_CURRENT_SEGMENT seg) =
     Inr (state\<lparr>currentSegment := seg, currentQuestionIndex := 0,
                timer := 0, isTimerRunning := False\<rparr>)"
| "gameReducer initialGameState state NEXT_QUESTION =
     Inr (state\<lparr>currentQuestionIndex := currentQuestionIndex state + 1,
                timer := 0, isTimerRunning := False,
                players := zero_strikes (players state)\<rparr>)"
| "gameReducer initialGameState state NEXT_SEGMENT =
     Inr (state\<lparr>currentQuestionIndex := 0,
                timer := 0, isTimerRunning := False,
                players := zero_strikes (players state)\<rparr>)"
| "gameReducer initialGameState state (ADD_PLAYER player) =
     Inr (state\<lparr>players := (players state)(player_id player \<mapsto> player)\<rparr>)"
| "gameReducer initialGameState state (UPDATE_PLAYER pid partial) =
     (case players state pid of
        None \<Rightarrow> Inl TypeError
      | Some p \<Rightarrow> Inr (state\<lparr>players := (players state)(pid \<mapsto> assign_player p partial)\<rparr>))"
| "gameReducer initialGameState state (UPDATE_SCORE pid pts) =
     (case players state pid of
        None \<Rightarrow> Inl TypeError
      | Some p \<Rightarrow> Inr (state\<lparr>players := (players state)(pid \<mapsto> p\<lparr>score := score p + pts\<rparr>)\<rparr>))"
| "gameReducer initialGameState state (ADD_STRIKE pid) =
     (case players state pid of
        None \<Rightarrow> Inl TypeError
      | Some p \<Rightarrow>
          Inr (state\<lparr>players := (players state)(pid \<mapsto> p\<lparr>strikes := or_zero (strikes p) + 1\<rparr>)\<rparr>))"
| "gameReducer initialGameState state (USE_SPECIAL_BUTTON pid buttonType) =
     (case players state pid of
        None \<Rightarrow> Inl TypeError
      | Some p \<Rightarrow>
          Inr (state\<lparr>players :=
                 (players state)(pid \<mapsto> p\<lparr>specialButtons := (specialButtons p)(buttonType \<mapsto> False)\<rparr>)\<rparr>))"
| "gameReducer initialGameState state (START_TIMER duration) =
     Inr (state\<lparr>timer := duration, isTimerRunning := True\<rparr>)"
| "gameReducer initialGameState state STOP_TIMER =
     Inr (state\<lparr>timer := 0, isTimerRunning := False\<rparr>)"
| "gameReducer initialGameState state TICK_TIMER =
     Inr (if timer state > 0 then state\<lparr>timer := timer state - 1\<rparr> else state)"
| "gameReducer initialGameState state RESET_GAME = Inr initialGameState"
| "gameReducer initialGameState state (UPDATE_TIMER t isRunning) =
     Inr (state\<lparr>timer := t, isTimerRunning := isRunning\<rparr>)"
| "gameReducer initialGameState state (PUSH_SCORE_EVENT ev) =
     Inr (state\<lparr>scoreHistory := scoreHistory state @ [ev]\<rparr>)"
| "gameReducer initialGameState state RESET_STRIKES =
     Inr (state\<lparr>players := zero_strikes (players state)\<rparr>)"
| "gameReducer initialGameState state COMPLETE_GAME =
     Inr (state\<lparr>phase := ''COMPLETED'', isTimerRunning := False\<rparr>)"
| "gameReducer initialGameState state (OTHER_ACTION tag) = Inr state"

text \<open>
  Dispatching a list of actions in order, as repeated calls of the provider's
  \<^verbatim>\<open>dispatch\<close> do: each action is reduced in the state the previous one left, and
  an exception thrown by the reducer ends the run.
\<close>

fun dispatch_all :: "GameState \<Rightarrow> GameState \<Rightarrow> GameAction list \<Rightarrow> error + GameState" where
  "dispatch_all initialGameState state [] = Inr state"
| "dispatch_all initialGameState state (a # as) =
     (case gameReducer initialGameState state a of
        Inl e \<Rightarrow> Inl e
      | Inr state' \<Rightarrow> dispatch_all initialGameState state' as)"

section \<open>Reconciliation of a remote delta\<close>

text \<open>
  Modelled from the spec: the type of the delta handed to \<^verbatim>\<open>onGameStateUpdate\<close>
  is declared in \<^verbatim>\<open>@/lib/gameSync\<close>, which is not among the sources; the
  specification calls it a partial GameState, so every field may be missing.
\<close>

record PartialGameState =
  gameId_p :: "string option"
  hostCode_p :: "string option"
  hostName_p :: "string option option"
  phase_p :: "GamePhase option"
  currentSegment_p :: "SegmentCode option option"
  currentQuestionIndex_p :: "number option"
  timer_p :: "number option"
  isTimerRunning_p :: "bool option"
  players_p :: "(PlayerId \<rightharpoonup> Player) option"
  scoreHistory_p :: "ScoreEvent list option"
  segmentSettings_p :: "(SegmentCode \<rightharpoonup> number) option"
  videoRoomUrl_p :: "string option option"
  videoRoomCreated_p :: "bool option"

text \<open>The object spread \<^verbatim>\<open>{ ...state, ...gs }\<close>: a shallow merge, field by field.\<close>

definition spread_state :: "GameState \<Rightarrow> PartialGameState \<Rightarrow> GameState" where
  "spread_state state gs =
     \<lparr> gameId = overlay (gameId state) (gameId_p gs),
       hostCode = overlay (hostCode state) (hostCode_p gs),
       hostName = overlay (hostName state) (hostName_p gs),
       phase = overlay (phase state) (phase_p gs),
       currentSegment = overlay (currentSegment state) (currentSegment_p gs),
       currentQuestionIndex = overlay (currentQuestionIndex state) (currentQuestionIndex_p gs),
       timer = overlay (timer state) (timer_p gs),
       isTimerRunning = overlay (isTimerRunning state) (isTimerRunning_p gs),
       players = overlay (players state) (players_p gs),
       scoreHistory = overlay (scoreHistory state) (scoreHistory_p gs),
       segmentSettings = overlay (segmentSettings state) (segmentSettings_p gs),
       videoRoomUrl = overlay (videoRoomUrl state) (videoRoomUrl_p gs),
       videoRoomCreated = overlay (videoRoomCreated state) (videoRoomCreated_p gs) \<rparr>"

text \<open>
  The callback the provider registers with the sync channel:
  \<^verbatim>\<open>(gs) => dispatch({ type: 'INIT', payload: { ...state, ...gs } as GameState })\<close>.
  \<open>state\<close> is the variable of the provider that the callback closes over; the
  result is the action that is dispatched.
\<close>

definition onGameStateUpdate :: "GameState \<Rightarrow> PartialGameState \<Rightarrow> GameAction" where
  "onGameStateUpdate state gs = INIT (spread_state state gs)"

section \<open>The provider\<close>

text \<open>
  \<^verbatim>\<open>GameProvider\<close> holds the reducer's state and, in \<^verbatim>\<open>gameSyncRef\<close>, the
  connected sync channel. All that matters of the channel here is the \<open>state\<close> its
  \<^verbatim>\<open>onGameStateUpdate\<close> callback closes over, so the reference is modelled as that
  state, \<open>None\<close> while \<^verbatim>\<open>gameSyncRef.current\<close> is \<^verbatim>\<open>null\<close>.
\<close>

record GameProvider =
  provider_state :: GameState
  gameSyncRef :: "GameState option"

text \<open>
  The body of the provider's effect, run with \<^verbatim>\<open>gameSyncRef.current\<close> null (as it
  is on mount and after the effect's cleanup): nothing without a game id, otherwise a
  sync channel whose callback closes over the \<open>state\<close> of this render.
\<close>

definition sync_effect :: "GameState \<Rightarrow> GameState option" where
  "sync_effect state = (if gameId state = '''' then None else Some state)"

definition GameProvider_mount :: "GameState \<Rightarrow> GameProvider" where
  "GameProvider_mount initialGameState =
     \<lparr> provider_state = initialGameState, gameSyncRef = sync_effect initialGameState \<rparr>"

text \<open>
  What reaches the provider: a local \<^verbatim>\<open>dispatch(action)\<close>, or a remote delta that
  the sync channel hands to \<^verbatim>\<open>onGameStateUpdate\<close>.
\<close>

datatype ProviderEvent = Dispatch GameAction | RemoteUpdate PartialGameState

text \<open>
  One event. A dispatch reduces the state; the effect has the dependency list
  \<^verbatim>\<open>[state.gameId]\<close>, so it is cleaned up and run again only when the game id
  changed, and otherwise the channel and the state its callback closed over stay. A
  remote delta goes to the callback of the connected channel, which dispatches
  \<^verbatim>\<open>INIT\<close> with the spread of the state it closed over and the delta.
\<close>

definition GameProvider_dispatch :: "GameState \<Rightarrow> GameProvider \<Rightarrow> GameAction \<Rightarrow> error + GameProvider" where
  "GameProvider_dispatch initialGameState pv action =
     (case gameReducer initialGameState (provider_state pv) action of
        Inl e \<Rightarrow> Inl e
      | Inr state' \<Rightarrow>
          Inr \<lparr> provider_state = state',
                gameSyncRef = (if gameId state' = gameId (provider_state pv)
                               then gameSyncRef pv else sync_effect state') \<rparr>)"

fun GameProvider_step :: "GameState \<Rightarrow> GameProvider \<Rightarrow> ProviderEvent \<Rightarrow> error + GameProvider" where
  "GameProvider_step initialGameState pv (Dispatch action) =
     GameProvider_dispatch initialGameState pv action"
| "GameProvider_step initialGameState pv (RemoteUpdate gs) =
     (case gameSyncRef pv of
        None \<Rightarrow> Inr pv
      | Some held \<Rightarrow> GameProvider_dispatch initialGameState pv (onGameStateUpdate held gs))"

fun GameProvider_run :: "GameState \<Rightarrow> GameProvider \<Rightarrow> ProviderEvent list \<Rightarrow> error + GameProvider" where
  "GameProvider_run initialGameState pv [] = Inr pv"
| "GameProvider_run initialGameState pv (ev # evs) =
     (case GameProvider_step initialGameState pv ev of
        Inl e \<Rightarrow> Inl e
      | Inr pv' \<Rightarrow> GameProvider_run initialGameState pv' evs)"

section \<open>Loading a stored record\<close>





section \<open>Classes of actions\<close>

text \<open>The actions whose case stores a phase chosen by the caller, or replaces the
  whole state.\<close>

fun replaces_phase :: "GameAction \<Rightarrow> bool" where
  "replaces_phase (INIT payload) = True"
| "replaces_phase (SET_PHASE ph) = True"
| "replaces_phase RESET_GAME = True"
| "replaces_phase a = False"

text \<open>The actions whose case runs the loop that zeroes every player's strikes.\<close>

fun zeroes_strikes :: "GameAction \<Rightarrow> bool" where
  "zeroes_strikes NEXT_QUESTION = True"
| "zeroes_strikes NEXT_SEGMENT = True"
| "zeroes_strikes RESET_STRIKES = True"
| "zeroes_strikes a = False"

text \<open>The actions that store player data supplied by the caller, or a whole state.\<close>

fun stores_players :: "GameAction \<Rightarrow> bool" where
  "stores_players (INIT payload) = True"
| "stores_players (ADD_PLAYER player) = True"
| "stores_players (UPDATE_PLAYER pid partial) = True"
| "stores_players RESET_GAME = True"
| "stores_players a = False"

text \<open>The timer value an action carries, if it carries one, is a whole number that
  is not negative.\<close>

fun timer_argument_ok :: "GameAction \<Rightarrow> bool" where
  "timer_argument_ok (INIT payload) = (timer payload \<in> \<nat>)"
| "timer_argument_ok (START_TIMER duration) = (duration \<in> \<nat>)"
| "timer_argument_ok (UPDATE_TIMER t isRunning) = (t \<in> \<nat>)"
| "timer_argument_ok a = True"

section \<open>A concrete session\<close>

text \<open>A player slot, a state with all three slots filled, a stored record and an
  empty delta, on which the theorems below are instantiated. \<open>sampleInitial\<close> is
  the sample state before a session has an id.\<close>

definition samplePlayer :: "PlayerId \<Rightarrow> Player" where
  "samplePlayer pid =
     \<lparr> player_id = pid, name = ''Sam'', score = 0, strikes = 0,
       specialButtons = Map.empty, flag = None, club = None, isConnected = True \<rparr>"

definition sampleState :: GameState where
  "sampleState =
     \<lparr> gameId = ''game-1'', hostCode = ''code-1'', hostName = Some ''Amber'',
       phase = ''CONFIG'', currentSegment = None, currentQuestionIndex = 0,
       timer = 0, isTimerRunning = False,
       players = (\<lambda>pid. Some (samplePlayer pid)),
       scoreHistory = [], segmentSettings = Map.empty,
       videoRoomUrl = None, videoRoomCreated = False \<rparr>"

definition sampleInitial :: GameState where
  "sampleInitial = sampleState\<lparr>gameId := '''', hostCode := '''', hostName := None\<rparr>"


definition noDelta :: PartialGameState where
  "noDelta =
     \<lparr> gameId_p = None, hostCode_p = None, hostName_p = None, phase_p = None,
       currentSegment_p = None, currentQuestionIndex_p = None, timer_p = None,
       isTimerRunning_p = None, players_p = None, scoreHistory_p = None,
       segmentSettings_p = None, videoRoomUrl_p = None, videoRoomCreated_p = None \<rparr>"

section \<open>Auxiliary facts\<close>

lemma or_zero_id: "or_zero x = x"
  by (simp add: or_zero_def)

lemma zero_strikes_Some:
  "zero_strikes ps k = Some p' \<longleftrightarrow> (\<exists>p. ps k = Some p \<and> p' = p\<lparr>strikes := 0\<rparr>)"
  by (auto simp: zero_strikes_def)

lemma dom_zero_strikes: "dom (zero_strikes ps) = dom ps"
  by (auto simp: zero_strikes_def dom_def)

lemma PlayerId_UNIV: "(UNIV :: PlayerId set) = {host, playerA, playerB}"
proof -
  have "x \<in> {host, playerA, playerB}" for x :: PlayerId
    by (cases x) simp_all
  then show ?thesis by blast
qed

lemma sampleState_keys: "dom (players sampleState) = {host, playerA, playerB}"
proof -
  have "dom (players sampleState) = UNIV"
    by (auto simp: sampleState_def)
  then show ?thesis
    by (simp only: PlayerId_UNIV)
qed

text \<open>Ticking as many times as the timer shows brings it to zero and changes
  nothing else.\<close>

lemma tick_run:
  "timer state = of_nat n \<Longrightarrow>
   dispatch_all initialGameState state (replicate n TICK_TIMER) = Inr (state\<lparr>timer := 0\<rparr>)"
proof (induction n arbitrary: state)
  case 0
  then show ?case by simp
next
  case (Suc n)
  have "timer (state\<lparr>timer := timer state - 1\<rparr>) = of_nat n"
    using Suc.prems by simp
  from Suc.IH [OF this] show ?case
    using Suc.prems by simp
qed

lemma add_strike_thrice:
  assumes "players state playerA = Some pa"
  shows "dispatch_all initialGameState state [ADD_STRIKE playerA, ADD_STRIKE playerA, ADD_STRIKE playerA]
           = Inr (state\<lparr>players := (players state)(playerA \<mapsto> pa\<lparr>strikes := strikes pa + 3\<rparr>)\<rparr>)"
  using assms by (simp add: or_zero_id add.commute)

section \<open>INIT and the merge of a remote delta\<close>

text \<open>
  C1. Dispatching \<^verbatim>\<open>INIT\<close> for a remote delta should leave every field that the
  delta lacks at its current local value. The reducer's \<^verbatim>\<open>INIT\<close> case returns
  its payload as it is, and the merge is made by the provider's callback, which
  spreads the delta over the state it closed over when the game id last changed, not
  over the current state. Run on the sample session: the session is loaded (phase
  CONFIG), the game is started (phase PLAYING) and the timer set to 30; the remote
  delta \<^verbatim>\<open>{timer: 12}\<close> then gives timer 12, but the phase is CONFIG again and
  the timer is no longer marked running: fields absent from the delta lost their
  current local values.
\<close>

theorem stale_snapshot_reverts_phase:
  "GameProvider_run sampleInitial (GameProvider_mount sampleInitial)
       [Dispatch (INIT sampleState), Dispatch (SET_PHASE ''PLAYING''), Dispatch (START_TIMER 30)]
     = Inr \<lparr> provider_state = sampleState\<lparr>phase := ''PLAYING'', timer := 30, isTimerRunning := True\<rparr>,
             gameSyncRef = Some sampleState \<rparr>
   \<and> GameProvider_run sampleInitial (GameProvider_mount sampleInitial)
       [Dispatch (INIT sampleState), Dispatch (SET_PHASE ''PLAYING''), Dispatch (START_TIMER 30),
        RemoteUpdate (noDelta\<lparr>timer_p := Some 12\<rparr>)]
     = Inr \<lparr> provider_state = sampleState\<lparr>timer := 12\<rparr>, gameSyncRef = Some sampleState \<rparr>
   \<and> phase (sampleState\<lparr>phase := ''PLAYING'', timer := 30, isTimerRunning := True\<rparr>) = ''PLAYING''
   \<and> phase (sampleState\<lparr>timer := 12\<rparr>) = ''CONFIG''
   \<and> isTimerRunning (sampleState\<lparr>phase := ''PLAYING'', timer := 30, isTimerRunning := True\<rparr>)
   \<and> \<not> isTimerRunning (sampleState\<lparr>timer := 12\<rparr>)"
proof -
  have id0: "gameId sampleInitial = ''''" and id1: "gameId sampleState = ''game-1''"
    by (simp_all add: sampleInitial_def sampleState_def)
  have mount: "GameProvider_mount sampleInitial
                 = \<lparr> provider_state = sampleInitial, gameSyncRef = None \<rparr>"
    by (simp add: GameProvider_mount_def sync_effect_def id0)
  have load: "GameProvider_step sampleInitial
                 \<lparr> provider_state = sampleInitial, gameSyncRef = None \<rparr> (Dispatch (INIT sampleState))
               = Inr \<lparr> provider_state = sampleState, gameSyncRef = Some sampleState \<rparr>"
    by (simp add: GameProvider_dispatch_def sync_effect_def id0 id1)
  have start: "GameProvider_step sampleInitial
                 \<lparr> provider_state = sampleState, gameSyncRef = Some sampleState \<rparr>
                 (Dispatch (SET_PHASE ''PLAYING''))
               = Inr \<lparr> provider_state = sampleState\<lparr>phase := ''PLAYING''\<rparr>,
                       gameSyncRef = Some sampleState \<rparr>"
    by (simp add: GameProvider_dispatch_def)
  have clock: "GameProvider_step sampleInitial
                 \<lparr> provider_state = sampleState\<lparr>phase := ''PLAYING''\<rparr>,
                   gameSyncRef = Some sampleState \<rparr>
                 (Dispatch (START_TIMER 30))
               = Inr \<lparr> provider_state = sampleState\<lparr>phase := ''PLAYING'', timer := 30, isTimerRunning := True\<rparr>,
                       gameSyncRef = Some sampleState \<rparr>"
    by (simp add: GameProvider_dispatch_def)
  have merged: "spread_state sampleState (noDelta\<lparr>timer_p := Some 12\<rparr>) = sampleState\<lparr>timer := 12\<rparr>"
    by (simp add: spread_state_def noDelta_def sampleState_def)
  have remote: "GameProvider_step sampleInitial
                 \<lparr> provider_state = sampleState\<lparr>phase := ''PLAYING'', timer := 30, isTimerRunning := True\<rparr>,
                   gameSyncRef = Some sampleState \<rparr>
                 (RemoteUpdate (noDelta\<lparr>timer_p := Some 12\<rparr>))
               = Inr \<lparr> provider_state = sampleState\<lparr>timer := 12\<rparr>, gameSyncRef = Some sampleState \<rparr>"
    by (simp add: GameProvider_dispatch_def onGameStateUpdate_def merged)
  have config: "phase sampleState = ''CONFIG''" and idle: "\<not> isTimerRunning sampleState"
    by (simp_all add: sampleState_def)
  show ?thesis
    by (simp add: mount load start clock remote config idle del: GameProvider_step.simps)
qed

section \<open>The COMPLETED phase\<close>

text \<open>
  C2, as stated, fails. The reducer never reads \<open>phase\<close>: in a COMPLETED state
  \<^verbatim>\<open>UPDATE_SCORE\<close>, which is not a reset, still adds the points.
\<close>

theorem completed_not_frozen_counterexample:
  "phase (sampleState\<lparr>phase := ''COMPLETED''\<rparr>) = ''COMPLETED''
   \<and> UPDATE_SCORE playerA 10 \<noteq> RESET_GAME
   \<and> gameReducer sampleState (sampleState\<lparr>phase := ''COMPLETED''\<rparr>) (UPDATE_SCORE playerA 10)
       = Inr (sampleState\<lparr>phase := ''COMPLETED'',
                players := (players sampleState)(playerA \<mapsto> (samplePlayer playerA)\<lparr>score := 10\<rparr>)\<rparr>)
   \<and> gameReducer sampleState (sampleState\<lparr>phase := ''COMPLETED''\<rparr>) (UPDATE_SCORE playerA 10)
       \<noteq> Inr (sampleState\<lparr>phase := ''COMPLETED''\<rparr>)"
proof -
  let ?s = "sampleState\<lparr>phase := ''COMPLETED''\<rparr>"
  let ?s' = "sampleState\<lparr>phase := ''COMPLETED'',
                players := (players sampleState)(playerA \<mapsto> (samplePlayer playerA)\<lparr>score := 10\<rparr>)\<rparr>"
  have run: "gameReducer sampleState ?s (UPDATE_SCORE playerA 10) = Inr ?s'"
    by (simp add: sampleState_def samplePlayer_def)
  have "?s' \<noteq> ?s"
  proof
    assume "?s' = ?s"
    then have "map_option score (players ?s' playerA) = map_option score (players ?s playerA)"
      by (rule arg_cong)
    then show False
      by (simp add: sampleState_def samplePlayer_def)
  qed
  with run show ?thesis by simp
qed

text \<open>
  C2, amended. The reducer has no gate on the phase. Its result does not depend on
  the phase of the state it is given: an action applied to the same state in any other
  phase returns the same result, up to the phase field itself (and exactly the same
  result for the actions that assign the phase: \<^verbatim>\<open>INIT\<close>, \<^verbatim>\<open>SET_PHASE\<close>,
  \<^verbatim>\<open>RESET_GAME\<close>, \<^verbatim>\<open>COMPLETE_GAME\<close>), so in a COMPLETED state every action
  has the effect it has in any other phase. What a COMPLETED state keeps is the phase
  itself: every action other than \<^verbatim>\<open>INIT\<close>, \<^verbatim>\<open>SET_PHASE\<close> and
  \<^verbatim>\<open>RESET_GAME\<close> returns a state whose phase is still COMPLETED, and
  \<^verbatim>\<open>RESET_GAME\<close> returns the initial state.
\<close>

theorem completed_phase_kept:
  assumes "phase state = ''COMPLETED''"
    and "gameReducer initialGameState state action = Inr state'"
  shows "(\<not> replaces_phase action \<longrightarrow> phase state' = ''COMPLETED'')
       \<and> (action = RESET_GAME \<longrightarrow> state' = initialGameState)
       \<and> gameReducer initialGameState (state\<lparr>phase := ph\<rparr>) action
           = (if replaces_phase action \<or> action = COMPLETE_GAME
              then gameReducer initialGameState state action
              else map_sum id (\<lambda>s. s\<lparr>phase := ph\<rparr>) (gameReducer initialGameState state action))"
proof -
  have kept: "\<not> replaces_phase action \<longrightarrow> phase state' = ''COMPLETED''"
    using assms by (cases action) (auto split: option.splits if_splits)
  have reset: "action = RESET_GAME \<longrightarrow> state' = initialGameState"
    using assms(2) by auto
  have same: "gameReducer initialGameState (state\<lparr>phase := ph\<rparr>) action
           = (if replaces_phase action \<or> action = COMPLETE_GAME
              then gameReducer initialGameState state action
              else map_sum id (\<lambda>s. s\<lparr>phase := ph\<rparr>) (gameReducer initialGameState state action))"
    by (cases action) (simp_all split: option.splits)
  from kept reset same show ?thesis by blast
qed

theorem completed_phase_kept_witness:
  "phase (sampleState\<lparr>phase := ''COMPLETED''\<rparr>) = ''COMPLETED''
   \<and> gameReducer sampleState (sampleState\<lparr>phase := ''COMPLETED''\<rparr>) (START_TIMER 30)
       = Inr (sampleState\<lparr>phase := ''COMPLETED'', timer := 30, isTimerRunning := True\<rparr>)
   \<and> \<not> replaces_phase (START_TIMER 30)
   \<and> phase (sampleState\<lparr>phase := ''COMPLETED'', timer := 30, isTimerRunning := True\<rparr>) = ''COMPLETED''
   \<and> gameReducer sampleState (sampleState\<lparr>phase := ''PLAYING''\<rparr>) (START_TIMER 30)
       = Inr (sampleState\<lparr>phase := ''PLAYING'', timer := 30, isTimerRunning := True\<rparr>)"
proof -
  have p: "phase (sampleState\<lparr>phase := ''COMPLETED''\<rparr>) = ''COMPLETED''"
    by simp
  have r: "gameReducer sampleState (sampleState\<lparr>phase := ''COMPLETED''\<rparr>) (START_TIMER 30)
       = Inr (sampleState\<lparr>phase := ''COMPLETED'', timer := 30, isTimerRunning := True\<rparr>)"
    by simp
  from completed_phase_kept [OF p r, of "''PLAYING''"] p r show ?thesis by simp
qed

section \<open>Strikes\<close>

text \<open>
  C3, as stated, fails. \<^verbatim>\<open>ADD_STRIKE\<close> has no ceiling: four of them from the
  sample state, where playerA has no strike, leave playerA with four strikes.
\<close>

theorem strikes_ceiling_counterexample:
  "dispatch_all sampleState sampleState
       [ADD_STRIKE playerA, ADD_STRIKE playerA, ADD_STRIKE playerA, ADD_STRIKE playerA]
     = Inr (sampleState\<lparr>players := (players sampleState)(playerA \<mapsto> (samplePlayer playerA)\<lparr>strikes := 4\<rparr>)\<rparr>)
   \<and> 3 < strikes ((samplePlayer playerA)\<lparr>strikes := 4\<rparr>)"
  by (simp add: sampleState_def samplePlayer_def or_zero_id)

text \<open>
  C3, amended. For a player present in the state and a transition that returns:
  \<^verbatim>\<open>NEXT_QUESTION\<close>, \<^verbatim>\<open>NEXT_SEGMENT\<close> and \<^verbatim>\<open>RESET_STRIKES\<close> leave the
  player with 0 strikes, and \<^verbatim>\<open>RESET_GAME\<close> returns the initial state. Every other
  action except \<^verbatim>\<open>INIT\<close>, \<^verbatim>\<open>ADD_PLAYER\<close> and \<^verbatim>\<open>UPDATE_PLAYER\<close>, which store
  player data given by the caller, leaves the player's strikes as they were, or one
  higher when it is \<^verbatim>\<open>ADD_STRIKE\<close> for that player; so strikes that were not
  negative stay so, and positive strikes are not zeroed. No upper bound is kept.
\<close>

theorem strikes_transitions:
  assumes "players state pid = Some p"
    and "gameReducer initialGameState state action = Inr state'"
  shows "(zeroes_strikes action \<longrightarrow> (\<exists>p'. players state' pid = Some p' \<and> strikes p' = 0))
       \<and> (action = RESET_GAME \<longrightarrow> state' = initialGameState)
       \<and> (\<not> zeroes_strikes action \<and> \<not> stores_players action \<longrightarrow>
            (\<exists>p'. players state' pid = Some p'
               \<and> strikes p' = (if action = ADD_STRIKE pid then strikes p + 1 else strikes p)
               \<and> (0 \<le> strikes p \<longrightarrow> 0 \<le> strikes p')
               \<and> (0 < strikes p \<longrightarrow> 0 < strikes p')))"
  using assms
  by (cases action) (auto simp: zero_strikes_def or_zero_id split: option.splits if_splits)

theorem strikes_transitions_witness:
  "players sampleState playerA = Some (samplePlayer playerA)
   \<and> gameReducer sampleState sampleState (ADD_STRIKE playerA)
       = Inr (sampleState\<lparr>players := (players sampleState)(playerA \<mapsto> (samplePlayer playerA)\<lparr>strikes := 1\<rparr>)\<rparr>)
   \<and> \<not> zeroes_strikes (ADD_STRIKE playerA) \<and> \<not> stores_players (ADD_STRIKE playerA)
   \<and> (\<exists>p'. players (sampleState\<lparr>players := (players sampleState)(playerA \<mapsto> (samplePlayer playerA)\<lparr>strikes := 1\<rparr>)\<rparr>) playerA = Some p'
          \<and> strikes p' = strikes (samplePlayer playerA) + 1)"
proof -
  have a: "players sampleState playerA = Some (samplePlayer playerA)"
    by (simp add: sampleState_def)
  have r: "gameReducer sampleState sampleState (ADD_STRIKE playerA)
       = Inr (sampleState\<lparr>players := (players sampleState)(playerA \<mapsto> (samplePlayer playerA)\<lparr>strikes := 1\<rparr>)\<rparr>)"
    by (simp add: sampleState_def samplePlayer_def or_zero_id)
  from strikes_transitions [OF a r] a r show ?thesis by simp
qed

section \<open>The timer\<close>

text \<open>
  C4, as stated, fails. \<^verbatim>\<open>UPDATE_TIMER\<close> stores the number it is given: from a
  state with timer 0, \<^verbatim>\<open>UPDATE_TIMER(-5, false)\<close> leaves the timer at -5. A timer
  that is not a whole number fails too: \<^verbatim>\<open>UPDATE_TIMER(0.5, true)\<close> leaves a timer
  that is not negative, and the \<^verbatim>\<open>TICK_TIMER\<close> after it, finding the timer above
  0, takes it to -0.5.
\<close>

theorem timer_negative_counterexample:
  "0 \<le> timer sampleState
   \<and> gameReducer sampleState sampleState (UPDATE_TIMER (- 5) False)
       = Inr (sampleState\<lparr>timer := - 5, isTimerRunning := False\<rparr>)
   \<and> timer (sampleState\<lparr>timer := - 5, isTimerRunning := False\<rparr>) < 0
   \<and> gameReducer sampleState sampleState (UPDATE_TIMER (1 / 2) True)
       = Inr (sampleState\<lparr>timer := 1 / 2, isTimerRunning := True\<rparr>)
   \<and> 0 \<le> timer (sampleState\<lparr>timer := 1 / 2, isTimerRunning := True\<rparr>)
   \<and> gameReducer sampleState (sampleState\<lparr>timer := 1 / 2, isTimerRunning := True\<rparr>) TICK_TIMER
       = Inr (sampleState\<lparr>timer := - (1 / 2), isTimerRunning := True\<rparr>)
   \<and> timer (sampleState\<lparr>timer := - (1 / 2), isTimerRunning := True\<rparr>) < 0"
  by (simp add: sampleState_def)

text \<open>
  C4, amended. From a state whose timer is a whole number \<open>\<ge> 0\<close>, an action whose
  own timer value (the timer of an \<^verbatim>\<open>INIT\<close> payload, the duration of
  \<^verbatim>\<open>START_TIMER\<close>, the timer of \<^verbatim>\<open>UPDATE_TIMER\<close>) is a whole number \<open>\<ge> 0\<close>
  returns a state whose timer is a whole number \<open>\<ge> 0\<close>, the initial state's timer
  being one as well.
\<close>

theorem timer_nonnegative:
  assumes "timer initialGameState \<in> \<nat>" and "timer state \<in> \<nat>"
    and "timer_argument_ok action"
    and "gameReducer initialGameState state action = Inr state'"
  shows "timer state' \<in> \<nat> \<and> 0 \<le> timer state'"
proof -
  have tick: "timer state - 1 \<in> \<nat>" if "0 < timer state"
  proof -
    from assms(2) obtain n where n: "timer state = of_nat n"
      by (auto simp: Nats_def)
    with that have "0 < n" by simp
    then have "timer state - 1 = of_nat (n - 1)"
      using n by (simp add: of_nat_diff)
    then show ?thesis by simp
  qed
  have whole: "timer state' \<in> \<nat>"
    using assms tick by (cases action) (auto split: option.splits if_splits)
  then have "0 \<le> timer state'"
    by (auto simp: Nats_def)
  with whole show ?thesis by simp
qed

theorem timer_nonnegative_witness:
  "timer sampleState \<in> \<nat> \<and> timer (sampleState\<lparr>timer := 1\<rparr>) \<in> \<nat>
   \<and> timer_argument_ok TICK_TIMER
   \<and> gameReducer sampleState (sampleState\<lparr>timer := 1\<rparr>) TICK_TIMER = Inr (sampleState\<lparr>timer := 0\<rparr>)
   \<and> 0 \<le> timer (sampleState\<lparr>timer := 0\<rparr>)"
proof -
  have i: "timer sampleState \<in> \<nat>"
    by (simp add: sampleState_def)
  have s: "timer (sampleState\<lparr>timer := 1\<rparr>) \<in> \<nat>"
    by simp
  have ok: "timer_argument_ok TICK_TIMER"
    by simp
  have r: "gameReducer sampleState (sampleState\<lparr>timer := 1\<rparr>) TICK_TIMER = Inr (sampleState\<lparr>timer := 0\<rparr>)"
    by simp
  from timer_nonnegative [OF i s ok r] i s ok r show ?thesis by simp
qed

text \<open>
  C6. From a state with timer 0 and the timer not running, \<^verbatim>\<open>START_TIMER(30)\<close>
  gives timer 30 and a running timer; thirty \<^verbatim>\<open>TICK_TIMER\<close> then bring the timer
  to 0, with the timer still marked running; one more \<^verbatim>\<open>TICK_TIMER\<close> changes
  nothing. In any state \<^verbatim>\<open>TICK_TIMER\<close> takes 1 from a positive timer, leaves any
  other timer alone, and touches no other field.
\<close>

theorem timer_scenario:
  assumes "timer state = 0" and "\<not> isTimerRunning state"
  shows "gameReducer initialGameState state (START_TIMER 30)
           = Inr (state\<lparr>timer := 30, isTimerRunning := True\<rparr>)
       \<and> dispatch_all initialGameState (state\<lparr>timer := 30, isTimerRunning := True\<rparr>)
             (replicate 30 TICK_TIMER)
           = Inr (state\<lparr>timer := 0, isTimerRunning := True\<rparr>)
       \<and> gameReducer initialGameState (state\<lparr>timer := 0, isTimerRunning := True\<rparr>) TICK_TIMER
           = Inr (state\<lparr>timer := 0, isTimerRunning := True\<rparr>)
       \<and> gameReducer initialGameState other TICK_TIMER
           = Inr (other\<lparr>timer := (if 0 < timer other then timer other - 1 else timer other)\<rparr>)"
proof -
  have start: "gameReducer initialGameState state (START_TIMER 30)
                 = Inr (state\<lparr>timer := 30, isTimerRunning := True\<rparr>)"
    by simp
  have "timer (state\<lparr>timer := 30, isTimerRunning := True\<rparr>) = of_nat 30"
    by simp
  from tick_run [OF this]
  have ticks: "dispatch_all initialGameState (state\<lparr>timer := 30, isTimerRunning := True\<rparr>)
                 (replicate 30 TICK_TIMER)
               = Inr (state\<lparr>timer := 0, isTimerRunning := True\<rparr>)"
    by simp
  have once_more: "gameReducer initialGameState (state\<lparr>timer := 0, isTimerRunning := True\<rparr>) TICK_TIMER
                     = Inr (state\<lparr>timer := 0, isTimerRunning := True\<rparr>)"
    by simp
  have law: "gameReducer initialGameState other TICK_TIMER
           = Inr (other\<lparr>timer := (if 0 < timer other then timer other - 1 else timer other)\<rparr>)"
    by simp
  from start ticks once_more law show ?thesis by blast
qed

theorem timer_scenario_witness:
  "timer sampleState = 0 \<and> \<not> isTimerRunning sampleState
   \<and> dispatch_all sampleState (sampleState\<lparr>timer := 30, isTimerRunning := True\<rparr>)
         (replicate 30 TICK_TIMER)
       = Inr (sampleState\<lparr>timer := 0, isTimerRunning := True\<rparr>)"
proof -
  have a: "timer sampleState = 0" and b: "\<not> isTimerRunning sampleState"
    by (simp_all add: sampleState_def)
  from timer_scenario [OF a b, of sampleState] a b show ?thesis by blast
qed

text \<open>
  C10. \<^verbatim>\<open>UPDATE_TIMER\<close>, an action of the reducer's own action type, is accepted
  for every state, every number \<open>t\<close> (every integer among them) and every boolean
  \<open>b\<close>: it never throws, it stores exactly \<open>t\<close> in \<open>timer\<close> and exactly
  \<open>b\<close> in \<open>isTimerRunning\<close> without validating \<open>t\<close>, and every other field
  of the state stays as it was.
\<close>

theorem UPDATE_TIMER_frame:
  "gameReducer initialGameState state (UPDATE_TIMER t b) =
     Inr \<lparr> gameId = gameId state, hostCode = hostCode state, hostName = hostName state,
           phase = phase state, currentSegment = currentSegment state,
           currentQuestionIndex = currentQuestionIndex state,
           timer = t, isTimerRunning = b,
           players = players state, scoreHistory = scoreHistory state,
           segmentSettings = segmentSettings state, videoRoomUrl = videoRoomUrl state,
           videoRoomCreated = videoRoomCreated state \<rparr>"
  by simp

section \<open>The players object\<close>

text \<open>
  C5. After any sequence of actions the players mapping should have exactly the
  three keys host, playerA and playerB. \<^verbatim>\<open>INIT\<close> installs whatever \<open>players\<close>
  object its payload has, and the provider's callback builds that payload with a
  shallow spread of the remote delta over a state, under a cast to GameState. Run on
  the sample session: the session is loaded with its three slots, and a remote delta
  whose \<open>players\<close> holds playerA alone then leaves a state with the one key
  playerA; host and playerB are gone.
\<close>

theorem shallow_spread_drops_player_slots:
  "GameProvider_run sampleInitial (GameProvider_mount sampleInitial)
       [Dispatch (INIT sampleState),
        RemoteUpdate (noDelta\<lparr>players_p := Some [playerA \<mapsto> (samplePlayer playerA)\<lparr>score := 10\<rparr>]\<rparr>)]
     = Inr \<lparr> provider_state =
               sampleState\<lparr>players := [playerA \<mapsto> (samplePlayer playerA)\<lparr>score := 10\<rparr>]\<rparr>,
             gameSyncRef = Some sampleState \<rparr>
   \<and> dom (players sampleState) = {host, playerA, playerB}
   \<and> dom (players (sampleState\<lparr>players := [playerA \<mapsto> (samplePlayer playerA)\<lparr>score := 10\<rparr>]\<rparr>))
       = {playerA}
   \<and> {playerA} \<noteq> {host, playerA, playerB}"
proof -
  have id0: "gameId sampleInitial = ''''" and id1: "gameId sampleState = ''game-1''"
    by (simp_all add: sampleInitial_def sampleState_def)
  have mount: "GameProvider_mount sampleInitial
                 = \<lparr> provider_state = sampleInitial, gameSyncRef = None \<rparr>"
    by (simp add: GameProvider_mount_def sync_effect_def id0)
  have load: "GameProvider_step sampleInitial
                 \<lparr> provider_state = sampleInitial, gameSyncRef = None \<rparr> (Dispatch (INIT sampleState))
               = Inr \<lparr> provider_state = sampleState, gameSyncRef = Some sampleState \<rparr>"
    by (simp add: GameProvider_dispatch_def sync_effect_def id0 id1)
  have merged: "spread_state sampleState
                  (noDelta\<lparr>players_p := Some [playerA \<mapsto> (samplePlayer playerA)\<lparr>score := 10\<rparr>]\<rparr>)
                = sampleState\<lparr>players := [playerA \<mapsto> (samplePlayer playerA)\<lparr>score := 10\<rparr>]\<rparr>"
    by (simp add: spread_state_def noDelta_def sampleState_def)
  have remote: "GameProvider_step sampleInitial
                 \<lparr> provider_state = sampleState, gameSyncRef = Some sampleState \<rparr>
                 (RemoteUpdate (noDelta\<lparr>players_p := Some [playerA \<mapsto> (samplePlayer playerA)\<lparr>score := 10\<rparr>]\<rparr>))
               = Inr \<lparr> provider_state =
                         sampleState\<lparr>players := [playerA \<mapsto> (samplePlayer playerA)\<lparr>score := 10\<rparr>]\<rparr>,
                       gameSyncRef = Some sampleState \<rparr>"
    by (simp add: GameProvider_dispatch_def onGameStateUpdate_def merged)
  have run: "GameProvider_run sampleInitial (GameProvider_mount sampleInitial)
       [Dispatch (INIT sampleState),
        RemoteUpdate (noDelta\<lparr>players_p := Some [playerA \<mapsto> (samplePlayer playerA)\<lparr>score := 10\<rparr>]\<rparr>)]
     = Inr \<lparr> provider_state =
               sampleState\<lparr>players := [playerA \<mapsto> (samplePlayer playerA)\<lparr>score := 10\<rparr>]\<rparr>,
             gameSyncRef = Some sampleState \<rparr>"
    by (simp add: mount load remote del: GameProvider_step.simps)
  from sampleState_keys run show ?thesis by simp
qed

section \<open>Advancing and completing\<close>

text \<open>
  C7. In every state \<^verbatim>\<open>NEXT_QUESTION\<close> returns a state with
  \<open>currentQuestionIndex\<close> one higher, timer 0, the timer not running, the same
  player keys and every player's strikes 0. When playerA has no strike and playerB is
  present, three \<^verbatim>\<open>ADD_STRIKE(playerA)\<close> leave playerA with 3 strikes, and a
  \<^verbatim>\<open>NEXT_QUESTION\<close> after them leaves playerA and playerB with 0 strikes.
\<close>

theorem NEXT_QUESTION_effect:
  "(\<exists>state'. gameReducer initialGameState state NEXT_QUESTION = Inr state'
       \<and> currentQuestionIndex state' = currentQuestionIndex state + 1
       \<and> timer state' = 0 \<and> \<not> isTimerRunning state'
       \<and> dom (players state') = dom (players state)
       \<and> (\<forall>pid p'. players state' pid = Some p' \<longrightarrow> strikes p' = 0))
   \<and> (players state playerA = Some pa \<and> strikes pa = 0 \<and> players state playerB = Some pb \<longrightarrow>
        (\<exists>s3 p3 s4 qa qb.
           dispatch_all initialGameState state
             [ADD_STRIKE playerA, ADD_STRIKE playerA, ADD_STRIKE playerA] = Inr s3
           \<and> players s3 playerA = Some p3 \<and> strikes p3 = 3
           \<and> gameReducer initialGameState s3 NEXT_QUESTION = Inr s4
           \<and> players s4 playerA = Some qa \<and> strikes qa = 0
           \<and> players s4 playerB = Some qb \<and> strikes qb = 0))"
proof -
  let ?next = "state\<lparr>currentQuestionIndex := currentQuestionIndex state + 1,
                timer := 0, isTimerRunning := False,
                players := zero_strikes (players state)\<rparr>"
  have effect: "gameReducer initialGameState state NEXT_QUESTION = Inr ?next"
    by simp
  have fields: "currentQuestionIndex ?next = currentQuestionIndex state + 1"
    "timer ?next = 0" "\<not> isTimerRunning ?next"
    by simp_all
  have keys: "dom (players ?next) = dom (players state)"
    by (simp add: dom_zero_strikes)
  have zeroed: "\<forall>pid p'. players ?next pid = Some p' \<longrightarrow> strikes p' = 0"
    by (auto simp: zero_strikes_Some)
  have general: "\<exists>state'. gameReducer initialGameState state NEXT_QUESTION = Inr state'
       \<and> currentQuestionIndex state' = currentQuestionIndex state + 1
       \<and> timer state' = 0 \<and> \<not> isTimerRunning state'
       \<and> dom (players state') = dom (players state)
       \<and> (\<forall>pid p'. players state' pid = Some p' \<longrightarrow> strikes p' = 0)"
    using effect fields keys zeroed by blast
  have scenario: "\<exists>s3 p3 s4 qa qb.
           dispatch_all initialGameState state
             [ADD_STRIKE playerA, ADD_STRIKE playerA, ADD_STRIKE playerA] = Inr s3
           \<and> players s3 playerA = Some p3 \<and> strikes p3 = 3
           \<and> gameReducer initialGameState s3 NEXT_QUESTION = Inr s4
           \<and> players s4 playerA = Some qa \<and> strikes qa = 0
           \<and> players s4 playerB = Some qb \<and> strikes qb = 0"
    if a: "players state playerA = Some pa" and z: "strikes pa = 0"
      and b: "players state playerB = Some pb"
  proof -
    let ?s3 = "state\<lparr>players := (players state)(playerA \<mapsto> pa\<lparr>strikes := strikes pa + 3\<rparr>)\<rparr>"
    let ?s4 = "?s3\<lparr>currentQuestionIndex := currentQuestionIndex ?s3 + 1,
                timer := 0, isTimerRunning := False,
                players := zero_strikes (players ?s3)\<rparr>"
    have 1: "dispatch_all initialGameState state
             [ADD_STRIKE playerA, ADD_STRIKE playerA, ADD_STRIKE playerA] = Inr ?s3"
      by (rule add_strike_thrice [OF a])
    have 2: "players ?s3 playerA = Some (pa\<lparr>strikes := strikes pa + 3\<rparr>)"
      by simp
    have 3: "strikes (pa\<lparr>strikes := strikes pa + 3\<rparr>) = 3"
      using z by simp
    have 4: "gameReducer initialGameState ?s3 NEXT_QUESTION = Inr ?s4"
      by simp
    have 5: "players ?s4 playerA = Some (pa\<lparr>strikes := 0\<rparr>)"
      by (simp add: zero_strikes_def)
    have 6: "players ?s4 playerB = Some (pb\<lparr>strikes := 0\<rparr>)"
      using b by (simp add: zero_strikes_def)
    have 7: "strikes (pa\<lparr>strikes := 0\<rparr>) = 0" "strikes (pb\<lparr>strikes := 0\<rparr>) = 0"
      by simp_all
    from 1 2 3 4 5 6 7 show ?thesis by blast
  qed
  from general scenario show ?thesis by blast
qed

theorem NEXT_QUESTION_effect_witness:
  "players sampleState playerA = Some (samplePlayer playerA)
   \<and> strikes (samplePlayer playerA) = 0
   \<and> players sampleState playerB = Some (samplePlayer playerB)
   \<and> (\<exists>s3 p3 s4 qa qb.
           dispatch_all sampleState sampleState
             [ADD_STRIKE playerA, ADD_STRIKE playerA, ADD_STRIKE playerA] = Inr s3
           \<and> players s3 playerA = Some p3 \<and> strikes p3 = 3
           \<and> gameReducer sampleState s3 NEXT_QUESTION = Inr s4
           \<and> players s4 playerA = Some qa \<and> strikes qa = 0
           \<and> players s4 playerB = Some qb \<and> strikes qb = 0)"
proof -
  have a: "players sampleState playerA = Some (samplePlayer playerA)"
    and b: "players sampleState playerB = Some (samplePlayer playerB)"
    by (simp_all add: sampleState_def)
  have z: "strikes (samplePlayer playerA) = 0"
    by (simp add: samplePlayer_def)
  from NEXT_QUESTION_effect [of sampleState sampleState "samplePlayer playerA" "samplePlayer playerB"]
    a b z
  show ?thesis by blast
qed

text \<open>
  C8. In every state \<^verbatim>\<open>COMPLETE_GAME\<close> returns a state with phase COMPLETED and
  the timer not running; the seconds left on the timer and every other field stay as
  they were.
\<close>

theorem COMPLETE_GAME_effect:
  "gameReducer initialGameState state COMPLETE_GAME =
     Inr \<lparr> gameId = gameId state, hostCode = hostCode state, hostName = hostName state,
           phase = ''COMPLETED'', currentSegment = currentSegment state,
           currentQuestionIndex = currentQuestionIndex state,
           timer = timer state, isTimerRunning = False,
           players = players state, scoreHistory = scoreHistory state,
           segmentSettings = segmentSettings state, videoRoomUrl = videoRoomUrl state,
           videoRoomCreated = videoRoomCreated state \<rparr>"
  by simp

section \<open>Loading\<close>




end
